theory Spec2Isabelle
  imports Main "HOL-Library.List_Lexorder" "HOL-Library.Product_Lexorder" "HOL-Library.Word"
begin

section \<open>Values of the program\<close>

text \<open>
  A Python \<open>str\<close> is the list of its code points, so \<open>length\<close> is Python's \<open>len\<close>
  and the order of \<^theory_text>\<open>List_Lexorder\<close> is the order in which SQLite's BINARY collation
  compares TEXT values (byte order of UTF-8 is code point order). Strings are taken to
  be well-formed text, except those that a JSON body delivers: the validation of the
  payload tests them. \<open>bytes\<close> are lists of octets.
\<close>

type_synonym codepoint = nat
type_synonym str = "codepoint list"
type_synonym bytes = "8 word list"

definition ascii :: "string \<Rightarrow> str" where
  "ascii s = map of_char s"

text \<open>
  \<open>str.encode()\<close>: the UTF-8 bytes of a string; \<open>None\<close> stands for the
  \<open>UnicodeEncodeError\<close> that a surrogate raises. A string that cannot be encoded is
  not valid Unicode text.
\<close>

definition utf8 :: "codepoint \<Rightarrow> bytes option" where
  "utf8 c =
     (if c < 128 then Some [of_nat c]
      else if c < 2048 then Some [of_nat (192 + c div 64), of_nat (128 + c mod 64)]
      else if 55296 \<le> c \<and> c < 57344 then None
      else if c < 65536 then
        Some [of_nat (224 + c div 4096), of_nat (128 + c div 64 mod 64), of_nat (128 + c mod 64)]
      else if c < 1114112 then
        Some [of_nat (240 + c div 262144), of_nat (128 + c div 4096 mod 64),
              of_nat (128 + c div 64 mod 64), of_nat (128 + c mod 64)]
      else None)"

fun encode :: "str \<Rightarrow> bytes option" where
  "encode [] = Some []"
| "encode (c # cs) =
     (case utf8 c of None \<Rightarrow> None
      | Some b \<Rightarrow> (case encode cs of None \<Rightarrow> None | Some bs \<Rightarrow> Some (b @ bs)))"

text \<open>The bytes of an ASCII text.\<close>

definition bytes_of :: "string \<Rightarrow> bytes" where
  "bytes_of s = map of_char s"

text \<open>The exceptions that the modelled paths raise.\<close>

datatype error =
  IntegrityError | OverflowError | TypeError | UnicodeEncodeError | UnicodeDecodeError
| JSONDecodeError | ValueError

subsection \<open>datetime and isoformat\<close>

text \<open>
  A \<open>datetime\<close> as the webhook payload carries it: the civil fields and the offset of
  its time zone from UTC in seconds (\<open>None\<close> for a naive value, as \<open>datetime.utcnow()\<close>
  returns). The fields are within Python's ranges (year 1..9999 and so on).
\<close>

record datetime =
  year :: nat
  month :: nat
  day :: nat
  hour :: nat
  minute :: nat
  second :: nat
  microsecond :: nat
  utcoffset :: "int option"

text \<open>\<open>zpad w n\<close> is \<open>"%0wd" % n\<close> for a number of at most \<open>w\<close> digits.\<close>

fun zpad :: "nat \<Rightarrow> nat \<Rightarrow> str" where
  "zpad 0 n = []"
| "zpad (Suc w) n = zpad w (n div 10) @ [48 + n mod 10]"

definition format_offset :: "int \<Rightarrow> str" where
  "format_offset off =
     (let a = nat \<bar>off\<bar>; hh = a div 3600; mm = (a mod 3600) div 60; ss = a mod 60
      in (if off < 0 then ascii ''-'' else ascii ''+'') @ zpad 2 hh @ ascii '':'' @ zpad 2 mm
         @ (if ss \<noteq> 0 then ascii '':'' @ zpad 2 ss else []))"

text \<open>
  \<open>datetime.isoformat()\<close>: \<open>YYYY-MM-DDTHH:MM:SS\<close>, then \<open>.ffffff\<close> when the microsecond
  is not zero, then \<open>+HH:MM\<close> (and \<open>:SS\<close> when the offset has seconds) for an aware
  value.
\<close>

definition isoformat :: "datetime \<Rightarrow> str" where
  "isoformat d =
     zpad 4 (year d) @ ascii ''-'' @ zpad 2 (month d) @ ascii ''-'' @ zpad 2 (day d)
     @ ascii ''T'' @ zpad 2 (hour d) @ ascii '':'' @ zpad 2 (minute d) @ ascii '':''
     @ zpad 2 (second d)
     @ (if microsecond d \<noteq> 0 then ascii ''.'' @ zpad 6 (microsecond d) else [])
     @ (case utcoffset d of None \<Rightarrow> [] | Some off \<Rightarrow> format_offset off)"

section \<open>storage.py: the messages table\<close>

text \<open>
  One row of the table \<open>messages\<close>; \<open>ts\<close> and \<open>created_at\<close> are TEXT columns holding
  ISO 8601 text, \<open>text\<close> may be NULL. The table is the list of its rows in insertion
  order.
\<close>

record row =
  message_id :: str
  from_msisdn :: str
  to_msisdn :: str
  ts :: str
  text' :: "str option"
  created_at :: str

type_synonym store = "row list"

text \<open>
  \<open>INSERT INTO messages\<close>: the primary key on \<open>message_id\<close> makes the statement fail
  with \<open>sqlite3.IntegrityError\<close> when a row with the same id exists.
\<close>

definition sql_insert :: "store \<Rightarrow> row \<Rightarrow> error + store" where
  "sql_insert db r =
     (if row.message_id r \<in> set (map row.message_id db) then Inl IntegrityError
      else Inr (db @ [r]))"

text \<open>
  \<open>MessageStorage.insert_message\<close>; \<open>now\<close> is the value of \<open>datetime.utcnow()\<close> read by
  the call; \<open>mid\<close>, \<open>frm\<close>, \<open>to\<close>, \<open>d\<close> and \<open>txt\<close> are the arguments \<open>message_id\<close>,
  \<open>from_msisdn\<close>, \<open>to_msisdn\<close>, \<open>ts\<close> and \<open>text\<close>. The result is the returned flag
  and the table after the call.
\<close>

definition insert_message ::
  "store \<Rightarrow> datetime \<Rightarrow> str \<Rightarrow> str \<Rightarrow> str \<Rightarrow> datetime \<Rightarrow> str option \<Rightarrow> bool \<times> store" where
  "insert_message db now mid frm to d txt =
     (case sql_insert db
        \<lparr>row.message_id = mid, from_msisdn = frm, to_msisdn = to,
         ts = isoformat d, text' = txt, created_at = isoformat now\<rparr> of
        Inr db' \<Rightarrow> (True, db')
      | Inl e \<Rightarrow> (False, db))"

subsection \<open>get\_messages\<close>

text \<open>
  SQLite's \<open>LIKE\<close> with its default settings. \<open>pattern_compare\<close> is the comparison
  of a pattern with a text: \<open>%\<close> (37) matches any run of characters, \<open>_\<close> (95) any
  one character, and every other character matches itself, the ASCII letters without
  regard to case.
\<close>

definition lower_ascii :: "codepoint \<Rightarrow> codepoint" where
  "lower_ascii c = (if 65 \<le> c \<and> c \<le> 90 then c + 32 else c)"

fun pattern_compare :: "str \<Rightarrow> str \<Rightarrow> bool" where
  "pattern_compare [] s = (s = [])"
| "pattern_compare (p # ps) s =
     (if p = 37
      then pattern_compare ps s
           \<or> (case s of [] \<Rightarrow> False | c # cs \<Rightarrow> pattern_compare (p # ps) cs)
      else (case s of [] \<Rightarrow> False
            | c # cs \<Rightarrow> (p = 95 \<or> lower_ascii p = lower_ascii c) \<and> pattern_compare ps cs))"

text \<open>
  \<open>LIKE\<close> reads its two operands as C strings, which end at their first NUL
  character. The first argument is the pattern. SQLite refuses a pattern of more than
  50000 bytes with \<open>OperationalError\<close>; this development has no such path, and takes
  the search text to be shorter.
\<close>

definition c_string :: "str \<Rightarrow> str" where
  "c_string s = takeWhile (\<lambda>c. c \<noteq> 0) s"

definition like :: "str \<Rightarrow> str \<Rightarrow> bool" where
  "like p s = pattern_compare (c_string p) (c_string s)"

text \<open>
  The entries of \<open>where_clauses\<close>, each with its parameter: \<open>from_msisdn = ?\<close>,
  \<open>ts >= ?\<close> and \<open>text LIKE ?\<close>. A clause is added when its argument is truthy: a
  \<open>str\<close> that is neither \<open>None\<close> nor empty, a \<open>datetime\<close> that is not \<open>None\<close>.
\<close>

datatype clause = From_eq str | Ts_ge str | Text_like str

definition where_clauses :: "str option \<Rightarrow> datetime option \<Rightarrow> str option \<Rightarrow> clause list" where
  "where_clauses frm since search_query =
     (case frm of None \<Rightarrow> [] | Some f \<Rightarrow> if f \<noteq> [] then [From_eq f] else [])
     @ (case since of None \<Rightarrow> [] | Some d \<Rightarrow> [Ts_ge (isoformat d)])
     @ (case search_query of None \<Rightarrow> []
        | Some q \<Rightarrow> if q \<noteq> [] then [Text_like (ascii ''%'' @ q @ ascii ''%'')] else [])"

text \<open>
  A clause on a row. The comparisons are those of TEXT values; \<open>LIKE\<close> on a NULL text
  is NULL, which a \<open>WHERE\<close> does not accept.
\<close>

fun holds :: "clause \<Rightarrow> row \<Rightarrow> bool" where
  "holds (From_eq v) r = (from_msisdn r = v)"
| "holds (Ts_ge v) r = (v \<le> ts r)"
| "holds (Text_like p) r = (case text' r of None \<Rightarrow> False | Some t \<Rightarrow> like p t)"

text \<open>\<open>where_sql\<close>: the clauses joined by \<open>AND\<close>, \<open>1=1\<close> when there is none.\<close>

definition where_sql :: "clause list \<Rightarrow> row \<Rightarrow> bool" where
  "where_sql cs r = list_all (\<lambda>c. holds c r) cs"

text \<open>
  A Python \<open>int\<close> is bound to a statement as a 64-bit signed INTEGER; \<open>sqlite3\<close> raises
  \<open>OverflowError\<close> for a value outside that range.
\<close>

definition sqlite_integer :: "int \<Rightarrow> bool" where
  "sqlite_integer n \<longleftrightarrow> - (2 ^ 63) \<le> n \<and> n < 2 ^ 63"

text \<open>\<open>LIMIT ? OFFSET ?\<close>: a negative limit is no limit, a negative offset is 0.\<close>

definition limit_offset :: "int \<Rightarrow> int \<Rightarrow> 'a list \<Rightarrow> 'a list" where
  "limit_offset limit offset xs =
     (let ys = drop (nat offset) xs in if limit < 0 then ys else take (nat limit) ys)"

text \<open>
  \<open>MessageStorage.get_messages\<close>: the count of the rows that satisfy the clauses, and
  those rows \<open>ORDER BY ts ASC, message_id ASC\<close> cut by limit and offset. The
  \<open>Message\<close> objects of the result carry the six columns of their rows; their two
  date-times are read back by \<open>datetime.fromisoformat\<close> from the text that
  \<open>isoformat\<close> wrote, and the model keeps that text.
\<close>

definition get_messages ::
  "store \<Rightarrow> int \<Rightarrow> int \<Rightarrow> str option \<Rightarrow> datetime option \<Rightarrow> str option
     \<Rightarrow> error + (row list \<times> nat)" where
  "get_messages db limit offset frm since search_query =
     (let cs = where_clauses frm since search_query;
          total = length (filter (where_sql cs) db)
      in if sqlite_integer limit \<and> sqlite_integer offset
         then Inr (limit_offset limit offset
                     (sort_key (\<lambda>r. (ts r, row.message_id r)) (filter (where_sql cs) db)),
                   total)
         else Inl OverflowError)"

subsection \<open>get\_stats\<close>

record stats =
  total_messages :: nat
  senders_count :: nat
  messages_per_sender :: "(str \<times> nat) list"
  first_message_ts :: "str option"
  last_message_ts :: "str option"

text \<open>
  \<open>GROUP BY from_msisdn ORDER BY count DESC, from_msisdn ASC LIMIT 10\<close>: one pair
  per distinct sender, with the number of its rows.
\<close>

definition top_senders :: "store \<Rightarrow> (str \<times> nat) list" where
  "top_senders db =
     take 10 (sort_key (\<lambda>(s, n). (- int n, s))
       (map (\<lambda>s. (s, length (filter (\<lambda>r. from_msisdn r = s) db)))
            (remdups (map from_msisdn db))))"

text \<open>\<open>MIN(ts)\<close> and \<open>MAX(ts)\<close> of a TEXT column; NULL on the empty table.\<close>

fun sql_min :: "str list \<Rightarrow> str option" where
  "sql_min [] = None"
| "sql_min (x # xs) = Some (fold min xs x)"

fun sql_max :: "str list \<Rightarrow> str option" where
  "sql_max [] = None"
| "sql_max (x # xs) = Some (fold max xs x)"

text \<open>The test \<open>if timestamps["first_ts"]\<close>: neither NULL nor the empty string.\<close>

definition truthy :: "str option \<Rightarrow> str option" where
  "truthy v = (case v of None \<Rightarrow> None | Some t \<Rightarrow> if t \<noteq> [] then Some t else None)"

definition get_stats :: "store \<Rightarrow> stats" where
  "get_stats db =
     \<lparr>total_messages = length db,
      senders_count = length (remdups (map from_msisdn db)),
      messages_per_sender = top_senders db,
      first_message_ts = truthy (sql_min (map ts db)),
      last_message_ts = truthy (sql_max (map ts db))\<rparr>"

subsection \<open>Points in time\<close>

text \<open>
  The point in time that a \<open>datetime\<close> denotes, in microseconds since
  0001-01-01T00:00:00 UTC: the day number of \<open>datetime.toordinal\<close>, the time of day,
  less the offset from UTC. Python orders aware values by it. A naive value is read as
  UTC.
\<close>

definition is_leap :: "nat \<Rightarrow> bool" where
  "is_leap y \<longleftrightarrow> y mod 4 = 0 \<and> (y mod 400 = 0 \<or> y mod 100 \<noteq> 0)"

definition days_before_year :: "nat \<Rightarrow> nat" where
  "days_before_year y = (let z = y - 1 in z * 365 + z div 4 - z div 100 + z div 400)"

definition days_before_month :: "nat \<Rightarrow> nat \<Rightarrow> nat" where
  "days_before_month y m =
     [0, 31, 59, 90, 120, 151, 181, 212, 243, 273, 304, 334] ! (m - 1)
     + (if 2 < m \<and> is_leap y then 1 else 0)"

definition toordinal :: "datetime \<Rightarrow> nat" where
  "toordinal d = days_before_year (year d) + days_before_month (year d) (month d) + day d"

definition utc_microseconds :: "datetime \<Rightarrow> int" where
  "utc_microseconds d =
     (int (toordinal d * 86400 + hour d * 3600 + minute d * 60 + second d)
      - (case utcoffset d of None \<Rightarrow> 0 | Some off \<Rightarrow> off)) * 1000000
     + int (microsecond d)"

section \<open>models.py: the webhook payload\<close>

text \<open>
  A decoded JSON value, as \<open>json.loads\<close> returns it; an object is the list of its
  members, whose keys are distinct. A float is kept as a mantissa and a decimal
  exponent.
\<close>

datatype json =
  JNull
| JBool bool
| JInt int
| JFloat int int
| JString str
| JArray "json list"
| JObject "(str \<times> json) list"

text \<open>
  A value that a validation failure reports as its input: a decoded JSON value (\<open>None\<close>
  is \<open>JNull\<close>), or the raw body when it was not decoded.
\<close>

datatype pyvalue = Json json | Bytes bytes

text \<open>
  The functions of Python's library, of pydantic and of the framework that the code
  calls and this development takes as given: the HMAC-SHA256 digest of a message under
  a key; the JSON decoder applied to a request body, which fails with
  \<open>JSONDecodeError\<close> on text that is not JSON and with another error, such as
  \<open>UnicodeDecodeError\<close>, on bytes that are not text; whether a \<open>Content-Type\<close> names
  JSON; pydantic's reading of a JSON value as a \<open>datetime\<close> (\<open>None\<close> when it is not a
  valid date-time); the decimal digits of the Unicode database beyond the ASCII ones;
  and whether the encoder of a JSON response accepts a value.
\<close>

record library =
  hmac_sha256 :: "bytes \<Rightarrow> bytes \<Rightarrow> bytes"
  json_loads :: "bytes \<Rightarrow> error + json"
  json_media_type :: "str \<Rightarrow> bool"
  parse_datetime :: "json \<Rightarrow> datetime option"
  unicode_decimal :: "codepoint \<Rightarrow> bool"
  renders :: "pyvalue \<Rightarrow> bool"

record WebhookPayload =
  message_id :: str
  from' :: str
  to :: str
  ts :: datetime
  text' :: "str option"

text \<open>
  \<open>str.isspace\<close> on one character, and \<open>str.strip()\<close>, which removes the whitespace at
  both ends.
\<close>

definition isspace :: "codepoint \<Rightarrow> bool" where
  "isspace c \<longleftrightarrow>
     (9 \<le> c \<and> c \<le> 13) \<or> (28 \<le> c \<and> c \<le> 32) \<or> c = 133 \<or> c = 160 \<or> c = 5760
     \<or> (8192 \<le> c \<and> c \<le> 8202) \<or> c = 8232 \<or> c = 8233 \<or> c = 8239 \<or> c = 8287
     \<or> c = 12288"

definition strip :: "str \<Rightarrow> str" where
  "strip v = rev (dropWhile isspace (rev (dropWhile isspace v)))"

text \<open>\<open>validate_message_id\<close>: the validator of the field \<open>message_id\<close>.\<close>

definition validate_message_id :: "str \<Rightarrow> error + str" where
  "validate_message_id v = (if v = [] \<or> strip v = [] then Inl ValueError else Inr (strip v))"

text \<open>
  \<open>\d\<close> in a pattern on a \<open>str\<close> is any Unicode decimal digit. \<open>re.match\<close> of
  \<open>^\+\d+$\<close>: a plus sign (43), the longest run of digits, which is not empty, and
  then the end of the string; \<open>$\<close> also matches just before a newline (10) that ends
  the string.
\<close>

definition is_digit :: "library \<Rightarrow> codepoint \<Rightarrow> bool" where
  "is_digit L c \<longleftrightarrow> (48 \<le> c \<and> c \<le> 57) \<or> unicode_decimal L c"

definition match_e164 :: "library \<Rightarrow> str \<Rightarrow> bool" where
  "match_e164 L v =
     (case v of [] \<Rightarrow> False
      | c # cs \<Rightarrow> c = 43 \<and> takeWhile (is_digit L) cs \<noteq> []
                 \<and> (dropWhile (is_digit L) cs = [] \<or> dropWhile (is_digit L) cs = [10]))"

text \<open>\<open>validate_e164\<close>: the validator of the fields \<open>from_\<close> and \<open>to\<close>.\<close>

definition validate_e164 :: "library \<Rightarrow> str \<Rightarrow> error + str" where
  "validate_e164 L v =
     (if v = [] then Inl ValueError
      else if \<not> match_e164 L v then Inl ValueError
      else Inr v)"

text \<open>
  The fields of \<open>WebhookPayload\<close>, each read from the members of the JSON object. A
  field that fails reports its input: the whole object when the member is missing, the
  member's value otherwise. A \<open>str\<close> field takes a JSON string that is valid Unicode
  text; then come the length bounds of the \<open>Field\<close>, then the field's validator. A
  member that no field names is ignored. \<open>from_\<close> is found under its alias \<open>from\<close>
  and, with \<open>populate_by_name\<close>, under its own name.
\<close>

definition str_field :: "json \<Rightarrow> json + str" where
  "str_field j =
     (case j of
        JString v \<Rightarrow> if encode v = None then Inl j else Inr v
      | _ \<Rightarrow> Inl j)"

definition field_message_id :: "(str \<times> json) list \<Rightarrow> json + str" where
  "field_message_id obj =
     (case map_of obj (ascii ''message_id'') of
        None \<Rightarrow> Inl (JObject obj)
      | Some j \<Rightarrow>
          (case str_field j of
             Inl i \<Rightarrow> Inl i
           | Inr v \<Rightarrow>
               if length v < 1 then Inl j
               else (case validate_message_id v of Inl e \<Rightarrow> Inl j | Inr m \<Rightarrow> Inr m)))"

definition e164_field :: "library \<Rightarrow> (str \<times> json) list \<Rightarrow> json option \<Rightarrow> json + str" where
  "e164_field L obj member =
     (case member of
        None \<Rightarrow> Inl (JObject obj)
      | Some j \<Rightarrow>
          (case str_field j of
             Inl i \<Rightarrow> Inl i
           | Inr v \<Rightarrow> (case validate_e164 L v of Inl e \<Rightarrow> Inl j | Inr m \<Rightarrow> Inr m)))"

definition field_from :: "library \<Rightarrow> (str \<times> json) list \<Rightarrow> json + str" where
  "field_from L obj =
     e164_field L obj
       (case map_of obj (ascii ''from'') of
          None \<Rightarrow> map_of obj (ascii ''from_'') | Some j \<Rightarrow> Some j)"

definition field_to :: "library \<Rightarrow> (str \<times> json) list \<Rightarrow> json + str" where
  "field_to L obj = e164_field L obj (map_of obj (ascii ''to''))"

definition field_ts :: "library \<Rightarrow> (str \<times> json) list \<Rightarrow> json + datetime" where
  "field_ts L obj =
     (case map_of obj (ascii ''ts'') of
        None \<Rightarrow> Inl (JObject obj)
      | Some j \<Rightarrow> (case parse_datetime L j of None \<Rightarrow> Inl j | Some d \<Rightarrow> Inr d))"

definition field_text :: "(str \<times> json) list \<Rightarrow> json + str option" where
  "field_text obj =
     (case map_of obj (ascii ''text'') of
        None \<Rightarrow> Inr None
      | Some JNull \<Rightarrow> Inr None
      | Some j \<Rightarrow>
          (case str_field j of
             Inl i \<Rightarrow> Inl i
           | Inr v \<Rightarrow> if 4096 < length v then Inl j else Inr (Some v)))"

text \<open>
  The validation of a JSON value as a \<open>WebhookPayload\<close>: the payload, or the fields
  that failed, each with the input it reports.
\<close>

definition failed :: "str \<Rightarrow> json + 'a \<Rightarrow> (str \<times> json) list" where
  "failed name v = (case v of Inl i \<Rightarrow> [(name, i)] | Inr x \<Rightarrow> [])"

definition validate_payload :: "library \<Rightarrow> json \<Rightarrow> (str \<times> json) list + WebhookPayload" where
  "validate_payload L j =
     (case j of
        JObject obj \<Rightarrow>
          (case (field_message_id obj, field_from L obj, field_to L obj, field_ts L obj,
                 field_text obj) of
             (Inr m, Inr f, Inr t, Inr d, Inr x) \<Rightarrow>
               Inr \<lparr>WebhookPayload.message_id = m, from' = f, to = t, ts = d, text' = x\<rparr>
           | (m, f, t, d, x) \<Rightarrow>
               Inl (failed (ascii ''message_id'') m @ failed (ascii ''from'') f
                    @ failed (ascii ''to'') t @ failed (ascii ''ts'') d
                    @ failed (ascii ''text'') x))
      | _ \<Rightarrow> Inl [(ascii ''body'', j)])"

section \<open>main.py: the webhook endpoint\<close>

text \<open>\<open>hexdigest()\<close>: two lower-case hexadecimal digits for each byte.\<close>

definition hex_digit :: "nat \<Rightarrow> codepoint" where
  "hex_digit n = (if n < 10 then 48 + n else 87 + n)"

definition hexdigest :: "bytes \<Rightarrow> str" where
  "hexdigest bs = concat (map (\<lambda>b. [hex_digit (unat b div 16), hex_digit (unat b mod 16)]) bs)"

text \<open>
  \<open>hmac.compare_digest\<close> on two \<open>str\<close>: equality, and \<open>TypeError\<close> when either holds
  a character that is not ASCII.
\<close>

definition compare_digest :: "str \<Rightarrow> str \<Rightarrow> error + bool" where
  "compare_digest a b =
     (if list_all (\<lambda>c. c < 128) a \<and> list_all (\<lambda>c. c < 128) b then Inr (a = b)
      else Inl TypeError)"

text \<open>\<open>verify_signature\<close>; \<open>secret\<close> is \<open>Config.WEBHOOK_SECRET\<close>.\<close>

definition verify_signature :: "library \<Rightarrow> str \<Rightarrow> bytes \<Rightarrow> str \<Rightarrow> error + bool" where
  "verify_signature L secret payload signature =
     (if secret = [] then Inr False
      else (case encode secret of
              None \<Rightarrow> Inl UnicodeEncodeError
            | Some key \<Rightarrow> compare_digest signature (hexdigest (hmac_sha256 L key payload))))"

text \<open>
  A request to \<open>POST /webhook\<close>: its raw body and its headers \<open>Content-Type\<close> and
  \<open>X-Signature\<close>, when it has them.
\<close>

record request =
  body :: bytes
  content_type :: "str option"
  x_signature :: "str option"

text \<open>
  The framework reads the body before anything else. An empty body is no body; a body
  is decoded as JSON when the request has no content type or one that names JSON, and
  is kept as bytes otherwise. A \<open>JSONDecodeError\<close> is answered with 422, any other
  error of the decoder with 400.
\<close>

definition read_body :: "library \<Rightarrow> request \<Rightarrow> nat + pyvalue option" where
  "read_body L req =
     (if body req = [] then Inr None
      else if (case content_type req of None \<Rightarrow> True | Some c \<Rightarrow> c = [] \<or> json_media_type L c)
      then (case json_loads L (body req) of
              Inr j \<Rightarrow> Inr (Some (Json j))
            | Inl JSONDecodeError \<Rightarrow> Inl 422
            | Inl e \<Rightarrow> Inl 400)
      else Inr (Some (Bytes (body req))))"

text \<open>
  The parameters that the endpoint declares, \<open>payload: WebhookPayload\<close> and
  \<open>x_signature: str = Header(...)\<close>, are bound by the framework before the function
  is called: the header is required, and the body is validated against the model. The
  failures are collected, those of the header first, and the request is answered with
  422. That response holds the input of every failure; when one cannot be written into
  it, because a string in it holds a lone surrogate, which UTF-8 cannot encode, or
  because the encoder refuses it, the answer is 500.
\<close>

definition body_failures :: "library \<Rightarrow> pyvalue option \<Rightarrow> (str \<times> pyvalue) list + WebhookPayload" where
  "body_failures L b =
     (case b of
        None \<Rightarrow> Inl [(ascii ''body'', Json JNull)]
      | Some (Bytes bs) \<Rightarrow> Inl [(ascii ''body'', Bytes bs)]
      | Some (Json j) \<Rightarrow>
          (case validate_payload L j of
             Inl errs \<Rightarrow> Inl (map (\<lambda>(name, i). (name, Json i)) errs)
           | Inr payload \<Rightarrow> Inr payload))"

primrec text_ok :: "json \<Rightarrow> bool" where
  "text_ok JNull = True"
| "text_ok (JBool b) = True"
| "text_ok (JInt n) = True"
| "text_ok (JFloat m e) = True"
| "text_ok (JString v) = (encode v \<noteq> None)"
| "text_ok (JArray js) = list_all id (map text_ok js)"
| "text_ok (JObject ms) = list_all (\<lambda>(k, ok). encode k \<noteq> None \<and> ok) (map (map_prod id text_ok) ms)"

definition writable :: "library \<Rightarrow> pyvalue \<Rightarrow> bool" where
  "writable L v = (case v of Json j \<Rightarrow> text_ok j \<and> renders L v | Bytes bs \<Rightarrow> renders L v)"

definition validation_response :: "library \<Rightarrow> (str \<times> pyvalue) list \<Rightarrow> nat" where
  "validation_response L errors = (if list_all (\<lambda>(name, i). writable L i) errors then 422 else 500)"

definition bind_parameters :: "library \<Rightarrow> request \<Rightarrow> nat + (WebhookPayload \<times> str)" where
  "bind_parameters L req =
     (case read_body L req of
        Inl status \<Rightarrow> Inl status
      | Inr b \<Rightarrow>
          (case (x_signature req, body_failures L b) of
             (Some sig, Inr payload) \<Rightarrow> Inr (payload, sig)
           | (Some sig, Inl errs) \<Rightarrow> Inl (validation_response L errs)
           | (None, Inr payload) \<Rightarrow>
               Inl (validation_response L [(ascii ''X-Signature'', Json JNull)])
           | (None, Inl errs) \<Rightarrow>
               Inl (validation_response L ((ascii ''X-Signature'', Json JNull) # errs))))"

text \<open>
  The body of \<open>webhook_endpoint\<close>, with its bound parameters: the status code of the
  response and the table after the call. An exception other than \<open>HTTPException\<close> is
  answered with 500. \<open>now\<close> is the clock value the insertion reads.
\<close>

definition webhook_endpoint ::
  "library \<Rightarrow> str \<Rightarrow> datetime \<Rightarrow> store \<Rightarrow> request \<Rightarrow> WebhookPayload \<Rightarrow> str \<Rightarrow> nat \<times> store" where
  "webhook_endpoint L secret now db req payload sig =
     (case verify_signature L secret (body req) sig of
        Inl e \<Rightarrow> (500, db)
      | Inr False \<Rightarrow> (401, db)
      | Inr True \<Rightarrow>
          (let (was_inserted, db') =
                 insert_message db now (WebhookPayload.message_id payload) (from' payload)
                   (to payload) (WebhookPayload.ts payload) (WebhookPayload.text' payload)
           in (200, db')))"

text \<open>\<open>POST /webhook\<close>: the binding of the parameters, then the endpoint.\<close>

definition post_webhook ::
  "library \<Rightarrow> str \<Rightarrow> datetime \<Rightarrow> store \<Rightarrow> request \<Rightarrow> nat \<times> store" where
  "post_webhook L secret now db req =
     (case bind_parameters L req of
        Inl status \<Rightarrow> (status, db)
      | Inr (payload, sig) \<Rightarrow> webhook_endpoint L secret now db req payload sig)"

section \<open>Evaluation\<close>

text \<open>The padded numbers of the three widths that \<open>isoformat\<close> prints.\<close>

lemma zpad_2: "zpad 2 n = [48 + n div 10 mod 10, 48 + n mod 10]"
  by (simp add: numeral_2_eq_2)

lemma zpad_4: "zpad 4 n = [48 + n div 1000 mod 10, 48 + n div 100 mod 10, 48 + n div 10 mod 10, 48 + n mod 10]"
proof -
  have four: "(4::nat) = Suc (Suc (Suc (Suc 0)))" by arith
  show ?thesis
    unfolding four zpad.simps by (simp add: div_mult2_eq [symmetric])
qed

lemma zpad_6: "zpad 6 n = [48 + n div 100000 mod 10, 48 + n div 10000 mod 10, 48 + n div 1000 mod 10,
     48 + n div 100 mod 10, 48 + n div 10 mod 10, 48 + n mod 10]"
proof -
  have six: "(6::nat) = Suc (Suc (Suc (Suc (Suc (Suc 0)))))" by arith
  show ?thesis
    unfolding six zpad.simps by (simp add: div_mult2_eq [symmetric])
qed

lemmas iso_eval = isoformat_def format_offset_def ascii_def zpad_2 zpad_4 zpad_6 Let_def

lemmas store_eval = insert_message_def sql_insert_def get_messages_def where_clauses_def
  where_sql_def sqlite_integer_def limit_offset_def

lemmas time_eval = utc_microseconds_def toordinal_def days_before_year_def
  days_before_month_def is_leap_def

section \<open>Idempotent insertion\<close>

lemma sql_insert_present:
  "mid \<in> set (map row.message_id db) \<Longrightarrow> row.message_id r = mid \<Longrightarrow> sql_insert db r = Inl IntegrityError"
  by (simp add: sql_insert_def)








section \<open>Filters of get\_messages\<close>

text \<open>
  C9. A sender filter that is the empty string, or a text search that is the empty
  string, gives the result that \<open>get_messages\<close> gives when that filter is \<open>None\<close>:
  the same rows, the same total, and the same error when there is one.
\<close>

theorem empty_filters_absent:
  "get_messages db limit offset (Some []) since q = get_messages db limit offset None since q
   \<and> get_messages db limit offset frm since (Some []) = get_messages db limit offset frm since None"
  by (simp add: get_messages_def where_clauses_def)

lemma where_sql_text_like:
  assumes "q \<noteq> []" and "where_sql (where_clauses frm since (Some q)) r"
  shows "row.text' r \<noteq> None"
  using assms by (auto simp: where_sql_def where_clauses_def split: option.splits)

lemma filter_where_has_text:
  assumes "q \<noteq> []"
  shows "filter (where_sql (where_clauses frm since (Some q))) (filter (\<lambda>r. row.text' r \<noteq> None) db)
       = filter (where_sql (where_clauses frm since (Some q))) db"
proof -
  have "(row.text' r \<noteq> None \<and> where_sql (where_clauses frm since (Some q)) r)
        = where_sql (where_clauses frm since (Some q)) r" for r
    using where_sql_text_like [OF assms] by blast
  then show ?thesis by (simp add: filter_filter conj_commute)
qed

lemma set_limit_offset: "set (limit_offset limit offset xs) \<subseteq> set xs"
proof -
  have "set (take (nat limit) (drop (nat offset) xs)) \<subseteq> set (drop (nat offset) xs)"
    by (rule set_take_subset)
  moreover have "set (drop (nat offset) xs) \<subseteq> set xs"
    by (rule set_drop_subset)
  ultimately show ?thesis
    by (auto simp: limit_offset_def Let_def)
qed

text \<open>
  C10. With a text search that is not empty, a row whose \<open>text\<close> is NULL never
  satisfies the clauses: \<open>get_messages\<close> answers as it does on the table without such
  rows, every row it returns has a text, and the total counts only rows that have one.
\<close>

theorem null_text_never_matches:
  assumes "q \<noteq> []"
  shows "get_messages db limit offset frm since (Some q)
           = get_messages (filter (\<lambda>r. row.text' r \<noteq> None) db) limit offset frm since (Some q)
       \<and> (\<forall>rows total. get_messages db limit offset frm since (Some q) = Inr (rows, total) \<longrightarrow>
             list_all (\<lambda>r. row.text' r \<noteq> None) rows
             \<and> total = length (filter (where_sql (where_clauses frm since (Some q)))
                                (filter (\<lambda>r. row.text' r \<noteq> None) db)))"
proof (intro conjI allI impI)
  show "get_messages db limit offset frm since (Some q)
           = get_messages (filter (\<lambda>r. row.text' r \<noteq> None) db) limit offset frm since (Some q)"
    by (simp only: get_messages_def Let_def filter_where_has_text [OF assms])
next
  fix rows total
  assume res: "get_messages db limit offset frm since (Some q) = Inr (rows, total)"
  then have rows: "rows = limit_offset limit offset
       (sort_key (\<lambda>r. (row.ts r, row.message_id r))
          (filter (where_sql (where_clauses frm since (Some q))) db))"
    and total: "total = length (filter (where_sql (where_clauses frm since (Some q))) db)"
    by (auto simp: get_messages_def Let_def split: if_splits)
  have "set rows \<subseteq> set (filter (where_sql (where_clauses frm since (Some q))) db)"
    unfolding rows using set_limit_offset by fastforce
  then show "list_all (\<lambda>r. row.text' r \<noteq> None) rows"
    using where_sql_text_like [OF assms] by (auto simp: list_all_iff)
  show "total = length (filter (where_sql (where_clauses frm since (Some q)))
                                (filter (\<lambda>r. row.text' r \<noteq> None) db))"
    by (simp only: total filter_where_has_text [OF assms])
qed

theorem null_text_never_matches_witness:
  "ascii ''ll'' \<noteq> []
   \<and> get_messages
       [\<lparr>row.message_id = ascii ''m1'', from_msisdn = ascii ''+1'', to_msisdn = ascii ''+2'',
         row.ts = ascii ''2025-01-15T10:00:00+00:00'', row.text' = Some (ascii ''Hello''),
         created_at = ascii ''2025-01-15T10:00:01''\<rparr>,
        \<lparr>row.message_id = ascii ''m2'', from_msisdn = ascii ''+1'', to_msisdn = ascii ''+2'',
         row.ts = ascii ''2025-01-15T10:00:00+00:00'', row.text' = None,
         created_at = ascii ''2025-01-15T10:00:02''\<rparr>]
       50 0 None None (Some (ascii ''ll''))
     = Inr ([\<lparr>row.message_id = ascii ''m1'', from_msisdn = ascii ''+1'', to_msisdn = ascii ''+2'',
              row.ts = ascii ''2025-01-15T10:00:00+00:00'', row.text' = Some (ascii ''Hello''),
              created_at = ascii ''2025-01-15T10:00:01''\<rparr>], 1)
   \<and> list_all (\<lambda>r. row.text' r \<noteq> None)
       [\<lparr>row.message_id = ascii ''m1'', from_msisdn = ascii ''+1'', to_msisdn = ascii ''+2'',
         row.ts = ascii ''2025-01-15T10:00:00+00:00'', row.text' = Some (ascii ''Hello''),
         created_at = ascii ''2025-01-15T10:00:01''\<rparr>]"
proof -
  have q: "ascii ''ll'' \<noteq> []"
    by (simp add: ascii_def)
  have r: "get_messages
       [\<lparr>row.message_id = ascii ''m1'', from_msisdn = ascii ''+1'', to_msisdn = ascii ''+2'',
         row.ts = ascii ''2025-01-15T10:00:00+00:00'', row.text' = Some (ascii ''Hello''),
         created_at = ascii ''2025-01-15T10:00:01''\<rparr>,
        \<lparr>row.message_id = ascii ''m2'', from_msisdn = ascii ''+1'', to_msisdn = ascii ''+2'',
         row.ts = ascii ''2025-01-15T10:00:00+00:00'', row.text' = None,
         created_at = ascii ''2025-01-15T10:00:02''\<rparr>]
       50 0 None None (Some (ascii ''ll''))
     = Inr ([\<lparr>row.message_id = ascii ''m1'', from_msisdn = ascii ''+1'', to_msisdn = ascii ''+2'',
              row.ts = ascii ''2025-01-15T10:00:00+00:00'', row.text' = Some (ascii ''Hello''),
              created_at = ascii ''2025-01-15T10:00:01''\<rparr>], 1)"
    by (simp add: get_messages_def where_clauses_def where_sql_def sqlite_integer_def
        limit_offset_def like_def c_string_def lower_ascii_def ascii_def)
  from null_text_never_matches [OF q] r q show ?thesis
    by blast
qed

section \<open>The signature\<close>

lemma hex_digit_ascii: "n < 16 \<Longrightarrow> hex_digit n < 128"
  by (simp add: hex_digit_def)

lemma hexdigest_ascii: "list_all (\<lambda>c. c < 128) (hexdigest bs)"
proof (induction bs)
  case Nil
  show ?case by (simp add: hexdigest_def)
next
  case (Cons b bs)
  have "unat b < 256"
    using unsigned_less [of b, where ?'a = nat] by simp
  then have "unat b div 16 < 16"
    by simp
  moreover have "unat b mod 16 < 16" by simp
  ultimately show ?case
    using Cons by (simp add: hexdigest_def hex_digit_ascii)
qed

lemma verify_signature_True:
  "verify_signature L secret payload sig = Inr True \<longleftrightarrow>
     secret \<noteq> [] \<and> (\<exists>key. encode secret = Some key \<and> sig = hexdigest (hmac_sha256 L key payload))"
  using hexdigest_ascii
  by (auto simp: verify_signature_def compare_digest_def split: option.splits)

text \<open>
  C5. \<open>verify_signature\<close> returns \<open>True\<close> exactly when the secret is not empty and
  the signature is the hexadecimal HMAC-SHA256 digest of the raw body under the UTF-8
  bytes of the secret; with an empty secret it returns \<open>False\<close>.
\<close>

theorem verify_signature_iff:
  "(verify_signature L secret payload sig = Inr True \<longleftrightarrow>
      secret \<noteq> [] \<and> (\<exists>key. encode secret = Some key \<and> sig = hexdigest (hmac_sha256 L key payload)))
   \<and> verify_signature L [] payload sig = Inr False"
proof (rule conjI)
  show "verify_signature L secret payload sig = Inr True \<longleftrightarrow>
      secret \<noteq> [] \<and> (\<exists>key. encode secret = Some key \<and> sig = hexdigest (hmac_sha256 L key payload))"
    by (rule verify_signature_True)
  show "verify_signature L [] payload sig = Inr False"
    by (simp add: verify_signature_def)
qed

theorem verify_signature_iff_witness:
  "verify_signature
     \<lparr>hmac_sha256 = (\<lambda>key msg. key @ msg), json_loads = (\<lambda>b. Inl JSONDecodeError),
      json_media_type = (\<lambda>c. True), parse_datetime = (\<lambda>j. None),
      unicode_decimal = (\<lambda>c. False), renders = (\<lambda>v. True)\<rparr>
     (ascii ''k'') [1] (ascii ''6b01'') = Inr True
   \<and> verify_signature
     \<lparr>hmac_sha256 = (\<lambda>key msg. key @ msg), json_loads = (\<lambda>b. Inl JSONDecodeError),
      json_media_type = (\<lambda>c. True), parse_datetime = (\<lambda>j. None),
      unicode_decimal = (\<lambda>c. False), renders = (\<lambda>v. True)\<rparr>
     [] [1] (ascii ''6b01'') = Inr False"
proof -
  have "ascii ''k'' \<noteq> [] \<and> (\<exists>key. encode (ascii ''k'') = Some key
     \<and> ascii ''6b01'' = hexdigest (hmac_sha256
        \<lparr>hmac_sha256 = (\<lambda>key msg. key @ msg), json_loads = (\<lambda>b. Inl JSONDecodeError),
      json_media_type = (\<lambda>c. True), parse_datetime = (\<lambda>j. None),
      unicode_decimal = (\<lambda>c. False), renders = (\<lambda>v. True)\<rparr> key [1]))"
    by (simp add: ascii_def utf8_def hexdigest_def hex_digit_def)
  with verify_signature_iff [of _ "ascii ''k''" "[1]" "ascii ''6b01''"] show ?thesis
    by blast
qed

section \<open>The webhook endpoint\<close>

lemma length_hexdigest: "length (hexdigest bs) = 2 * length bs"
  by (induction bs) (simp_all add: hexdigest_def)

lemma bad_is_no_digest: "ascii ''bad'' \<noteq> hexdigest bs"
proof
  assume "ascii ''bad'' = hexdigest bs"
  then have "length (ascii ''bad'') = length (hexdigest bs)"
    by simp
  then have "(3::nat) = 2 * length bs"
    by (simp add: length_hexdigest ascii_def)
  then show False
    by arith
qed

lemma str_field_lone_surrogate:
  "str_field (JString [55296]) = Inl (JString [55296]) \<and> \<not> text_ok (JString [55296])"
  by (simp add: str_field_def utf8_def)

lemma validation_response_status: "validation_response L errors \<in> {422, 500}"
  by (simp add: validation_response_def)

lemma read_body_status: "read_body L req = Inl status \<Longrightarrow> status \<in> {400, 422}"
  by (auto simp: read_body_def split: if_splits sum.splits error.splits)

lemma bind_parameters_status:
  assumes "bind_parameters L req = Inl status"
  shows "status \<in> {400, 422, 500}"
proof (cases "read_body L req")
  case (Inl st)
  with assms read_body_status [OF Inl] show ?thesis
    by (auto simp: bind_parameters_def)
next
  case (Inr b)
  with assms obtain errors where "status = validation_response L errors"
    by (auto simp: bind_parameters_def split: option.splits sum.splits)
  with validation_response_status [of L errors] show ?thesis
    by auto
qed

lemma bind_parameters_bound:
  assumes "bind_parameters L req = Inr (payload, sig)"
  shows "\<exists>j. read_body L req = Inr (Some (Json j)) \<and> validate_payload L j = Inr payload
           \<and> x_signature req = Some sig"
  using assms
  by (auto simp: bind_parameters_def body_failures_def
      split: option.splits sum.splits pyvalue.splits)

lemma bind_parameters_invalid:
  assumes "read_body L req = Inr (Some (Json j))" and "validate_payload L j = Inl errs"
  shows "bind_parameters L req =
           Inl (validation_response L
                  ((case x_signature req of None \<Rightarrow> [(ascii ''X-Signature'', Json JNull)]
                    | Some sig \<Rightarrow> [])
                   @ map (\<lambda>(name, i). (name, Json i)) errs))"
  using assms by (simp add: bind_parameters_def body_failures_def split: option.splits)

lemma webhook_endpoint_status:
  "fst (webhook_endpoint L secret now db req payload sig) = 401 \<longleftrightarrow>
     verify_signature L secret (body req) sig = Inr False"
  by (auto simp: webhook_endpoint_def split: sum.splits bool.splits prod.splits)

lemma webhook_endpoint_bad_signature:
  assumes "\<not> (\<exists>key. encode secret = Some key \<and> sig = hexdigest (hmac_sha256 L key (body req)))"
  shows "webhook_endpoint L secret now db req payload sig = (401, db)
       \<or> webhook_endpoint L secret now db req payload sig = (500, db)"
proof -
  have "verify_signature L secret (body req) sig \<noteq> Inr True"
    using assms verify_signature_True [of L secret "body req" sig] by blast
  then show ?thesis
    by (auto simp: webhook_endpoint_def split: sum.splits bool.splits)
qed

text \<open>
  C7. A request to \<open>POST /webhook\<close> whose \<open>X-Signature\<close> is not the hexadecimal
  HMAC-SHA256 digest of its raw body under the secret (or that has no such header) is
  rejected, with 400, 401, 422 or 500, and the table after the request is the table
  before it.
\<close>

theorem bad_signature_no_mutation:
  assumes "\<not> (\<exists>key. encode secret = Some key
               \<and> x_signature req = Some (hexdigest (hmac_sha256 L key (body req))))"
  shows "snd (post_webhook L secret now db req) = db
       \<and> fst (post_webhook L secret now db req) \<in> {400, 401, 422, 500}"
proof (cases "bind_parameters L req")
  case (Inl status)
  with bind_parameters_status [OF Inl] show ?thesis
    by (auto simp: post_webhook_def)
next
  case (Inr b)
  obtain payload sig where b: "b = (payload, sig)" by (cases b)
  with Inr bind_parameters_bound [of L req payload sig] have "x_signature req = Some sig"
    by auto
  with assms have "\<not> (\<exists>key. encode secret = Some key \<and> sig = hexdigest (hmac_sha256 L key (body req)))"
    by simp
  from webhook_endpoint_bad_signature [OF this, of now db payload] Inr b show ?thesis
    by (auto simp: post_webhook_def)
qed

theorem bad_signature_no_mutation_witness:
  "\<not> (\<exists>key. encode (ascii ''testsecret'') = Some key
          \<and> Some (ascii ''bad'') = Some (hexdigest (key @ bytes_of ''{\"message_id\":\"m2\",\"from\":\"+919876543210\",\"to\":\"+14155550100\",\"ts\":\"2025-01-15T10:00:00Z\"}'')))
   \<and> post_webhook
        \<lparr>hmac_sha256 = (\<lambda>key msg. key @ msg),
         json_loads = (\<lambda>b. if b = bytes_of ''{\"message_id\":\"m2\",\"from\":\"+919876543210\",\"to\":\"+14155550100\",\"ts\":\"2025-01-15T10:00:00Z\"}''
            then Inr (JObject [(ascii ''message_id'', JString (ascii ''m2'')),
                (ascii ''from'', JString (ascii ''+919876543210'')),
                (ascii ''to'', JString (ascii ''+14155550100'')),
                (ascii ''ts'', JString (ascii ''2025-01-15T10:00:00Z''))])
            else Inl JSONDecodeError),
         json_media_type = (\<lambda>c. True),
         parse_datetime = (\<lambda>j. if j = JString (ascii ''2025-01-15T10:00:00Z'')
            then Some \<lparr>year = 2025, month = 1, day = 15, hour = 10, minute = 0, second = 0,
                    microsecond = 0, utcoffset = Some 0\<rparr> else None),
         unicode_decimal = (\<lambda>c. False), renders = (\<lambda>v. True)\<rparr>
        (ascii ''testsecret'')
        \<lparr>year = 2025, month = 1, day = 15, hour = 10, minute = 5, second = 0,
                    microsecond = 0, utcoffset = None\<rparr>
        [\<lparr>row.message_id = ascii ''m1'', from_msisdn = ascii ''+919876543210'',
              to_msisdn = ascii ''+14155550100'', row.ts = ascii ''2025-01-15T09:00:00+00:00'',
              row.text' = Some (ascii ''Hello''), created_at = ascii ''2025-01-15T09:00:01''\<rparr>]
        \<lparr>body = bytes_of ''{\"message_id\":\"m2\",\"from\":\"+919876543210\",\"to\":\"+14155550100\",\"ts\":\"2025-01-15T10:00:00Z\"}'',
         content_type = Some (ascii ''application/json''),
         x_signature = Some (ascii ''bad'')\<rparr>
      = (401, [\<lparr>row.message_id = ascii ''m1'', from_msisdn = ascii ''+919876543210'',
              to_msisdn = ascii ''+14155550100'', row.ts = ascii ''2025-01-15T09:00:00+00:00'',
              row.text' = Some (ascii ''Hello''), created_at = ascii ''2025-01-15T09:00:01''\<rparr>])"
proof -
  let ?body = "bytes_of ''{\"message_id\":\"m2\",\"from\":\"+919876543210\",\"to\":\"+14155550100\",\"ts\":\"2025-01-15T10:00:00Z\"}''"
  let ?obj = "JObject [(ascii ''message_id'', JString (ascii ''m2'')),
                (ascii ''from'', JString (ascii ''+919876543210'')),
                (ascii ''to'', JString (ascii ''+14155550100'')),
                (ascii ''ts'', JString (ascii ''2025-01-15T10:00:00Z''))]"
  let ?L = "\<lparr>hmac_sha256 = (\<lambda>key msg. key @ msg),
         json_loads = (\<lambda>b. if b = ?body then Inr ?obj else Inl JSONDecodeError),
         json_media_type = (\<lambda>c. True),
         parse_datetime = (\<lambda>j. if j = JString (ascii ''2025-01-15T10:00:00Z'')
            then Some \<lparr>year = 2025, month = 1, day = 15, hour = 10, minute = 0, second = 0,
                    microsecond = 0, utcoffset = Some 0\<rparr> else None),
         unicode_decimal = (\<lambda>c. False), renders = (\<lambda>v. True)\<rparr>"
  let ?req = "\<lparr>body = ?body, content_type = Some (ascii ''application/json''),
         x_signature = Some (ascii ''bad'')\<rparr>"
  let ?db = "[\<lparr>row.message_id = ascii ''m1'', from_msisdn = ascii ''+919876543210'',
              to_msisdn = ascii ''+14155550100'', row.ts = ascii ''2025-01-15T09:00:00+00:00'',
              row.text' = Some (ascii ''Hello''), created_at = ascii ''2025-01-15T09:00:01''\<rparr>]"
  let ?now = "\<lparr>year = 2025, month = 1, day = 15, hour = 10, minute = 5, second = 0,
                    microsecond = 0, utcoffset = None\<rparr>"
  have hyp: "\<not> (\<exists>key. encode (ascii ''testsecret'') = Some key
        \<and> x_signature ?req = Some (hexdigest (hmac_sha256 ?L key (body ?req))))"
    using bad_is_no_digest by simp
  have hyp': "\<not> (\<exists>key. encode (ascii ''testsecret'') = Some key
          \<and> Some (ascii ''bad'') = Some (hexdigest (key @ ?body)))"
    using bad_is_no_digest by simp
  have nonempty: "?body \<noteq> []"
    by (simp add: bytes_of_def)
  have rb: "read_body ?L ?req = Inr (Some (Json ?obj))"
    using nonempty by (simp add: read_body_def)
  have vp: "\<exists>payload. validate_payload ?L ?obj = Inr payload"
    by (simp add: validate_payload_def field_message_id_def field_from_def field_to_def
        field_ts_def field_text_def e164_field_def str_field_def validate_message_id_def
        validate_e164_def match_e164_def is_digit_def strip_def isspace_def ascii_def utf8_def)
  have key: "\<exists>key. encode (ascii ''testsecret'') = Some key"
    by (simp add: ascii_def utf8_def)
  have vs: "verify_signature ?L (ascii ''testsecret'') ?body (ascii ''bad'') = Inr False"
  proof -
    from key obtain key where k: "encode (ascii ''testsecret'') = Some key" ..
    have "list_all (\<lambda>c. c < 128) (ascii ''bad'')"
      by (simp add: ascii_def)
    moreover have "ascii ''testsecret'' \<noteq> []"
      by (simp add: ascii_def)
    ultimately show ?thesis
      using k hexdigest_ascii [of "key @ ?body"] bad_is_no_digest [of "key @ ?body"]
      by (simp add: verify_signature_def compare_digest_def)
  qed
  from vp obtain payload where p: "validate_payload ?L ?obj = Inr payload" ..
  have bound: "bind_parameters ?L ?req = Inr (payload, ascii ''bad'')"
    using rb p by (simp add: bind_parameters_def body_failures_def)
  have status: "fst (post_webhook ?L (ascii ''testsecret'') ?now ?db ?req) = 401"
    using bound vs webhook_endpoint_status [of ?L "ascii ''testsecret''" ?now ?db ?req payload "ascii ''bad''"]
    by (simp add: post_webhook_def)
  from bad_signature_no_mutation [OF hyp, of ?now ?db]
  have "snd (post_webhook ?L (ascii ''testsecret'') ?now ?db ?req) = ?db"
    by (rule conjunct1)
  with status have "post_webhook ?L (ascii ''testsecret'') ?now ?db ?req = (401, ?db)"
    by (simp add: prod_eq_iff)
  with hyp' show ?thesis
    by (rule conjI)
qed

text \<open>
  C4, as the claim states it: a request with an invalid signature and a body that is
  not a valid payload would be answered 401. Here the signature \<open>bad\<close> is refused by
  \<open>verify_signature\<close>, the body \<open>{}\<close> lacks every required field, and the answer is
  422.
\<close>

theorem signature_before_validation_counterexample:
  "verify_signature
     \<lparr>hmac_sha256 = (\<lambda>key msg. key @ msg),
      json_loads = (\<lambda>b. if b = bytes_of ''{}'' then Inr (JObject []) else Inl JSONDecodeError),
      json_media_type = (\<lambda>c. True), parse_datetime = (\<lambda>j. None),
      unicode_decimal = (\<lambda>c. False), renders = (\<lambda>v. True)\<rparr>
     (ascii ''testsecret'') (bytes_of ''{}'') (ascii ''bad'') = Inr False
   \<and> post_webhook
     \<lparr>hmac_sha256 = (\<lambda>key msg. key @ msg),
      json_loads = (\<lambda>b. if b = bytes_of ''{}'' then Inr (JObject []) else Inl JSONDecodeError),
      json_media_type = (\<lambda>c. True), parse_datetime = (\<lambda>j. None),
      unicode_decimal = (\<lambda>c. False), renders = (\<lambda>v. True)\<rparr>
     (ascii ''testsecret'')
     \<lparr>year = 2025, month = 1, day = 15, hour = 10, minute = 5, second = 0,
                    microsecond = 0, utcoffset = None\<rparr>
     []
     \<lparr>body = bytes_of ''{}'', content_type = Some (ascii ''application/json''),
      x_signature = Some (ascii ''bad'')\<rparr> = (422, [])"
  by (simp add: verify_signature_def compare_digest_def post_webhook_def bind_parameters_def
      read_body_def body_failures_def validation_response_def writable_def validate_payload_def
      field_message_id_def field_from_def field_to_def field_ts_def field_text_def
      e164_field_def failed_def ascii_def bytes_of_def utf8_def hexdigest_def hex_digit_def)

text \<open>
  C4, amended. The payload is validated before the signature is verified. The answer
  is 401 exactly when the body was decoded, the payload validated, \<open>X-Signature\<close> is
  present and \<open>verify_signature\<close> returned \<open>False\<close>. A body that was decoded and
  fails validation is answered without a look at the signature or the secret: the
  table is unchanged and the answer is 422, or 500 when the input of a failure cannot
  be written into the response.
\<close>

theorem validation_before_signature:
  "(fst (post_webhook L secret now db req) = 401 \<longleftrightarrow>
      (\<exists>j payload sig. read_body L req = Inr (Some (Json j))
         \<and> validate_payload L j = Inr payload \<and> x_signature req = Some sig
         \<and> verify_signature L secret (body req) sig = Inr False))
   \<and> (\<forall>j errs. read_body L req = Inr (Some (Json j)) \<and> validate_payload L j = Inl errs \<longrightarrow>
         snd (post_webhook L secret now db req) = db
         \<and> fst (post_webhook L secret now db req) \<in> {422, 500}
         \<and> (writable L (Json JNull) \<and> list_all (\<lambda>(name, i). writable L (Json i)) errs \<longrightarrow>
              fst (post_webhook L secret now db req) = 422)
         \<and> (\<not> list_all (\<lambda>(name, i). writable L (Json i)) errs \<longrightarrow>
              fst (post_webhook L secret now db req) = 500))"
proof (intro conjI allI impI)
  show "fst (post_webhook L secret now db req) = 401 \<longleftrightarrow>
      (\<exists>j payload sig. read_body L req = Inr (Some (Json j))
         \<and> validate_payload L j = Inr payload \<and> x_signature req = Some sig
         \<and> verify_signature L secret (body req) sig = Inr False)"
  proof (cases "bind_parameters L req")
    case (Inl status)
    from bind_parameters_status [OF Inl] have "status \<noteq> 401"
      by auto
    moreover have "\<not> (\<exists>j payload sig. read_body L req = Inr (Some (Json j))
         \<and> validate_payload L j = Inr payload \<and> x_signature req = Some sig)"
      using Inl by (auto simp: bind_parameters_def body_failures_def)
    ultimately show ?thesis
      using Inl by (auto simp: post_webhook_def)
  next
    case (Inr b)
    obtain payload sig where b: "b = (payload, sig)" by (cases b)
    from Inr b bind_parameters_bound [of L req payload sig]
    obtain j where j: "read_body L req = Inr (Some (Json j))"
      "validate_payload L j = Inr payload" "x_signature req = Some sig"
      by auto
    have "fst (post_webhook L secret now db req) = 401 \<longleftrightarrow>
        verify_signature L secret (body req) sig = Inr False"
      using Inr b by (simp add: post_webhook_def webhook_endpoint_status)
    with j show ?thesis
      by auto
  qed
next
  fix j errs
  assume a: "read_body L req = Inr (Some (Json j)) \<and> validate_payload L j = Inl errs"
  note bind = bind_parameters_invalid [OF conjunct1 [OF a] conjunct2 [OF a]]
  show "snd (post_webhook L secret now db req) = db"
    by (simp add: post_webhook_def bind)
  show "fst (post_webhook L secret now db req) \<in> {422, 500}"
    using validation_response_status by (simp add: post_webhook_def bind)
  show "fst (post_webhook L secret now db req) = 422"
    if "writable L (Json JNull) \<and> list_all (\<lambda>(name, i). writable L (Json i)) errs"
    using that
    by (auto simp: post_webhook_def bind validation_response_def list_all_iff
        split: option.splits)
  show "fst (post_webhook L secret now db req) = 500"
    if "\<not> list_all (\<lambda>(name, i). writable L (Json i)) errs"
    using that
    by (auto simp: post_webhook_def bind validation_response_def list_all_iff
        split: option.splits)
qed

theorem validation_before_signature_witness:
  "read_body
     \<lparr>hmac_sha256 = (\<lambda>key msg. key @ msg),
      json_loads = (\<lambda>b. if b = bytes_of ''{}'' then Inr (JObject []) else Inl JSONDecodeError),
      json_media_type = (\<lambda>c. True), parse_datetime = (\<lambda>j. None),
      unicode_decimal = (\<lambda>c. False), renders = (\<lambda>v. True)\<rparr>
     \<lparr>body = bytes_of ''{}'', content_type = Some (ascii ''application/json''),
      x_signature = Some (ascii ''bad'')\<rparr> = Inr (Some (Json (JObject [])))
   \<and> validate_payload
     \<lparr>hmac_sha256 = (\<lambda>key msg. key @ msg),
      json_loads = (\<lambda>b. if b = bytes_of ''{}'' then Inr (JObject []) else Inl JSONDecodeError),
      json_media_type = (\<lambda>c. True), parse_datetime = (\<lambda>j. None),
      unicode_decimal = (\<lambda>c. False), renders = (\<lambda>v. True)\<rparr>
     (JObject [])
     = Inl [(ascii ''message_id'', JObject []), (ascii ''from'', JObject []),
            (ascii ''to'', JObject []), (ascii ''ts'', JObject [])]
   \<and> fst (post_webhook
     \<lparr>hmac_sha256 = (\<lambda>key msg. key @ msg),
      json_loads = (\<lambda>b. if b = bytes_of ''{}'' then Inr (JObject []) else Inl JSONDecodeError),
      json_media_type = (\<lambda>c. True), parse_datetime = (\<lambda>j. None),
      unicode_decimal = (\<lambda>c. False), renders = (\<lambda>v. True)\<rparr>
     (ascii ''testsecret'')
     \<lparr>year = 2025, month = 1, day = 15, hour = 10, minute = 5, second = 0,
                    microsecond = 0, utcoffset = None\<rparr>
     [\<lparr>row.message_id = ascii ''m1'', from_msisdn = ascii ''+919876543210'',
              to_msisdn = ascii ''+14155550100'', row.ts = ascii ''2025-01-15T09:00:00+00:00'',
              row.text' = Some (ascii ''Hello''), created_at = ascii ''2025-01-15T09:00:01''\<rparr>]
     \<lparr>body = bytes_of ''{}'', content_type = Some (ascii ''application/json''),
      x_signature = Some (ascii ''bad'')\<rparr>) = 422
   \<and> snd (post_webhook
     \<lparr>hmac_sha256 = (\<lambda>key msg. key @ msg),
      json_loads = (\<lambda>b. if b = bytes_of ''{}'' then Inr (JObject []) else Inl JSONDecodeError),
      json_media_type = (\<lambda>c. True), parse_datetime = (\<lambda>j. None),
      unicode_decimal = (\<lambda>c. False), renders = (\<lambda>v. True)\<rparr>
     (ascii ''testsecret'')
     \<lparr>year = 2025, month = 1, day = 15, hour = 10, minute = 5, second = 0,
                    microsecond = 0, utcoffset = None\<rparr>
     [\<lparr>row.message_id = ascii ''m1'', from_msisdn = ascii ''+919876543210'',
              to_msisdn = ascii ''+14155550100'', row.ts = ascii ''2025-01-15T09:00:00+00:00'',
              row.text' = Some (ascii ''Hello''), created_at = ascii ''2025-01-15T09:00:01''\<rparr>]
     \<lparr>body = bytes_of ''{}'', content_type = Some (ascii ''application/json''),
      x_signature = Some (ascii ''bad'')\<rparr>) = [\<lparr>row.message_id = ascii ''m1'', from_msisdn = ascii ''+919876543210'',
              to_msisdn = ascii ''+14155550100'', row.ts = ascii ''2025-01-15T09:00:00+00:00'',
              row.text' = Some (ascii ''Hello''), created_at = ascii ''2025-01-15T09:00:01''\<rparr>]"
proof -
  let ?L = "\<lparr>hmac_sha256 = (\<lambda>key msg. key @ msg),
      json_loads = (\<lambda>b. if b = bytes_of ''{}'' then Inr (JObject []) else Inl JSONDecodeError),
      json_media_type = (\<lambda>c. True), parse_datetime = (\<lambda>j. None),
      unicode_decimal = (\<lambda>c. False), renders = (\<lambda>v. True)\<rparr>"
  let ?req = "\<lparr>body = bytes_of ''{}'', content_type = Some (ascii ''application/json''),
      x_signature = Some (ascii ''bad'')\<rparr>"
  let ?errs = "[(ascii ''message_id'', JObject []), (ascii ''from'', JObject []),
            (ascii ''to'', JObject []), (ascii ''ts'', JObject [])]"
  have rb: "read_body ?L ?req = Inr (Some (Json (JObject [])))"
    by (simp add: read_body_def bytes_of_def)
  have vp: "validate_payload ?L (JObject []) = Inl ?errs"
    by (simp add: validate_payload_def field_message_id_def field_from_def field_to_def
        field_ts_def field_text_def e164_field_def failed_def)
  have rn: "writable ?L (Json JNull) \<and> list_all (\<lambda>(name, i). writable ?L (Json i)) ?errs"
    by (simp add: writable_def)
  from validation_before_signature [of ?L "ascii ''testsecret''" _ _ ?req] rb vp rn
  show ?thesis
    by blast
qed

section \<open>Order of the results\<close>

text \<open>
  The rows that \<open>get_messages\<close> returns are in the order of the stored text of \<open>ts\<close>,
  then of \<open>message_id\<close>.
\<close>

lemma sorted_limit_offset: "sorted (map f xs) \<Longrightarrow> sorted (map f (limit_offset limit offset xs))"
  by (simp add: limit_offset_def Let_def take_map [symmetric] drop_map [symmetric] sorted_wrt_take sorted_wrt_drop del: take_map drop_map)

lemma get_messages_sorted_by_text:
  assumes "get_messages db limit offset frm since q = Inr (rows, n)"
  shows "sorted (map (\<lambda>r. (row.ts r, row.message_id r)) rows)"
proof -
  from assms have "rows = limit_offset limit offset
      (sort_key (\<lambda>r. (row.ts r, row.message_id r))
         (filter (where_sql (where_clauses frm since q)) db))"
    by (auto simp: get_messages_def Let_def split: if_splits)
  then show ?thesis
    by (simp add: sorted_limit_offset)
qed

text \<open>
  C2. Two messages with different UTC offsets: \<open>m1\<close> at 10:00 UTC and \<open>m2\<close> at 09:30
  in the zone five hours behind UTC, which is 14:30 UTC. \<open>m1\<close> is the older one, and
  \<open>get_messages\<close> returns \<open>m2\<close> first, since the text \<open>2025-01-15T09:30:00-05:00\<close>
  is below \<open>2025-01-15T10:00:00+00:00\<close>.
\<close>

theorem get_messages_orders_by_text:
  "let now = \<lparr>year = 2025, month = 1, day = 15, hour = 15, minute = 0, second = 0,
              microsecond = 0, utcoffset = None\<rparr>;
       d1 = \<lparr>year = 2025, month = 1, day = 15, hour = 10, minute = 0, second = 0,
             microsecond = 0, utcoffset = Some 0\<rparr>;
       d2 = \<lparr>year = 2025, month = 1, day = 15, hour = 9, minute = 30, second = 0,
             microsecond = 0, utcoffset = Some (- 18000)\<rparr>;
       db1 = snd (insert_message [] now (ascii ''m1'') (ascii ''+919876543210'')
                    (ascii ''+14155550100'') d1 None);
       db2 = snd (insert_message db1 now (ascii ''m2'') (ascii ''+919876543210'')
                    (ascii ''+14155550100'') d2 None)
   in utc_microseconds d1 < utc_microseconds d2
      \<and> (case get_messages db2 50 0 None None None of
            Inl e \<Rightarrow> False
          | Inr (rows, n) \<Rightarrow> map row.message_id rows = [ascii ''m2'', ascii ''m1''])"
proof -
  let ?r1 = "\<lparr>row.message_id = ascii ''m1'', from_msisdn = ascii ''+919876543210'',
        to_msisdn = ascii ''+14155550100'', row.ts = ascii ''2025-01-15T10:00:00+00:00'',
        row.text' = None, created_at = ascii ''2025-01-15T15:00:00''\<rparr>"
  let ?r2 = "\<lparr>row.message_id = ascii ''m2'', from_msisdn = ascii ''+919876543210'',
        to_msisdn = ascii ''+14155550100'', row.ts = ascii ''2025-01-15T09:30:00-05:00'',
        row.text' = None, created_at = ascii ''2025-01-15T15:00:00''\<rparr>"
  have db: "snd (insert_message (snd (insert_message []
      \<lparr>year = 2025, month = 1, day = 15, hour = 15, minute = 0, second = 0,
        microsecond = 0, utcoffset = None\<rparr> (ascii ''m1'') (ascii ''+919876543210'')
      (ascii ''+14155550100'')
      \<lparr>year = 2025, month = 1, day = 15, hour = 10, minute = 0, second = 0,
        microsecond = 0, utcoffset = Some 0\<rparr> None))
     \<lparr>year = 2025, month = 1, day = 15, hour = 15, minute = 0, second = 0,
       microsecond = 0, utcoffset = None\<rparr> (ascii ''m2'') (ascii ''+919876543210'')
     (ascii ''+14155550100'')
     \<lparr>year = 2025, month = 1, day = 15, hour = 9, minute = 30, second = 0,
       microsecond = 0, utcoffset = Some (- 18000)\<rparr> None) = [?r1, ?r2]"
    by (simp add: insert_message_def sql_insert_def iso_eval)
  have flt: "filter (where_sql (where_clauses None None None)) [?r1, ?r2] = [?r1, ?r2]"
    by (simp add: where_sql_def where_clauses_def)
  have srt: "sort_key (\<lambda>r. (row.ts r, row.message_id r)) [?r1, ?r2] = [?r2, ?r1]"
    by (simp add: ascii_def)
  have qry: "get_messages [?r1, ?r2] 50 0 None None None = Inr ([?r2, ?r1], 2)"
    unfolding get_messages_def Let_def flt srt
    by (simp add: limit_offset_def sqlite_integer_def)
  have later: "utc_microseconds
      \<lparr>year = 2025, month = 1, day = 15, hour = 10, minute = 0, second = 0,
        microsecond = 0, utcoffset = Some 0\<rparr>
    < utc_microseconds
      \<lparr>year = 2025, month = 1, day = 15, hour = 9, minute = 30, second = 0,
        microsecond = 0, utcoffset = Some (- 18000)\<rparr>"
    by (simp add: time_eval)
  have ids: "(case Inr ([?r2, ?r1], 2::nat) of
            Inl (e::error) \<Rightarrow> False
          | Inr (rows, n) \<Rightarrow> map row.message_id rows = [ascii ''m2'', ascii ''m1''])"
    by simp
  show ?thesis
    unfolding Let_def db qry by (rule conjI [OF later ids])
qed

section \<open>Pagination\<close>

text \<open>
  With a limit and an offset that SQLite can bind, the total is the number of rows that
  satisfy the clauses, whatever the limit and the offset, and no row is returned when
  the offset reaches it.
\<close>

lemma get_messages_in_range:
  assumes "sqlite_integer limit" and "sqlite_integer offset"
  shows "\<exists>rows. get_messages db limit offset frm since q
            = Inr (rows, length (filter (where_sql (where_clauses frm since q)) db))
          \<and> (int (length (filter (where_sql (where_clauses frm since q)) db)) \<le> offset
               \<longrightarrow> rows = [])"
  using assms by (simp add: get_messages_def Let_def limit_offset_def)

text \<open>
  C3. An offset of \<open>2 ^ 63\<close> is not negative, so that the endpoint accepts it, and
  \<open>get_messages\<close> raises \<open>OverflowError\<close> when it binds it: no page and no total are
  returned.
\<close>

theorem get_messages_overflow:
  "get_messages db 50 (2 ^ 63) frm since q = Inl OverflowError"
  by (simp add: get_messages_def sqlite_integer_def)

section \<open>Statistics\<close>

text \<open>
  \<open>messages_per_sender\<close> has at most ten entries, in the order of the count descending
  and then of the sender, and both timestamps are \<open>None\<close> on the empty table.
\<close>

lemma top_senders_length: "length (top_senders db) \<le> 10"
  by (simp add: top_senders_def)

lemma top_senders_sorted:
  "sorted (map (\<lambda>(s, n). (- int n, s)) (top_senders db))"
  by (simp add: top_senders_def take_map [symmetric] sorted_wrt_take del: take_map)

lemma get_stats_empty:
  "first_message_ts (get_stats []) = None \<and> last_message_ts (get_stats []) = None"
  by (simp add: get_stats_def truthy_def)

text \<open>
  C6. On the two messages of C2, \<open>first_message_ts\<close> is the timestamp of \<open>m2\<close>, the
  later message, and \<open>last_message_ts\<close> that of \<open>m1\<close>, the earlier one: \<open>MIN\<close> and
  \<open>MAX\<close> compare the stored text.
\<close>

theorem get_stats_text_extremes:
  "let now = \<lparr>year = 2025, month = 1, day = 15, hour = 15, minute = 0, second = 0,
              microsecond = 0, utcoffset = None\<rparr>;
       d1 = \<lparr>year = 2025, month = 1, day = 15, hour = 10, minute = 0, second = 0,
             microsecond = 0, utcoffset = Some 0\<rparr>;
       d2 = \<lparr>year = 2025, month = 1, day = 15, hour = 9, minute = 30, second = 0,
             microsecond = 0, utcoffset = Some (- 18000)\<rparr>;
       db1 = snd (insert_message [] now (ascii ''m1'') (ascii ''+919876543210'')
                    (ascii ''+14155550100'') d1 None);
       db2 = snd (insert_message db1 now (ascii ''m2'') (ascii ''+919876543210'')
                    (ascii ''+14155550100'') d2 None)
   in utc_microseconds d1 < utc_microseconds d2
      \<and> first_message_ts (get_stats db2) = Some (isoformat d2)
      \<and> last_message_ts (get_stats db2) = Some (isoformat d1)"
proof -
  let ?d1 = "\<lparr>year = 2025, month = 1, day = 15, hour = 10, minute = 0, second = 0,
             microsecond = 0, utcoffset = Some 0\<rparr>"
  let ?d2 = "\<lparr>year = 2025, month = 1, day = 15, hour = 9, minute = 30, second = 0,
             microsecond = 0, utcoffset = Some (- 18000)\<rparr>"
  let ?now = "\<lparr>year = 2025, month = 1, day = 15, hour = 15, minute = 0, second = 0,
              microsecond = 0, utcoffset = None\<rparr>"
  let ?db = "snd (insert_message (snd (insert_message [] ?now (ascii ''m1'')
       (ascii ''+919876543210'') (ascii ''+14155550100'') ?d1 None)) ?now (ascii ''m2'')
       (ascii ''+919876543210'') (ascii ''+14155550100'') ?d2 None)"
  have i1: "isoformat ?d1 = ascii ''2025-01-15T10:00:00+00:00''"
    by (simp add: iso_eval)
  have i2: "isoformat ?d2 = ascii ''2025-01-15T09:30:00-05:00''"
    by (simp add: iso_eval)
  have ts: "map row.ts ?db = [isoformat ?d1, isoformat ?d2]"
    by (simp add: insert_message_def sql_insert_def ascii_def)
  have lt: "ascii ''2025-01-15T09:30:00-05:00'' \<le> ascii ''2025-01-15T10:00:00+00:00''"
    by (simp add: ascii_def)
  have ne: "ascii ''2025-01-15T09:30:00-05:00'' \<noteq> []" "ascii ''2025-01-15T10:00:00+00:00'' \<noteq> []"
    by (simp_all add: ascii_def)
  have mn: "first_message_ts (get_stats ?db) = Some (isoformat ?d2)"
    unfolding get_stats_def ts i1 i2 using lt ne by (simp add: truthy_def min_def)
  have mx: "last_message_ts (get_stats ?db) = Some (isoformat ?d1)"
    unfolding get_stats_def ts i1 i2 using lt ne by (simp add: truthy_def max_def)
  have later: "utc_microseconds ?d1 < utc_microseconds ?d2"
    by (simp add: time_eval)
  show ?thesis
    unfolding Let_def by (rule conjI [OF later conjI [OF mn mx]])
qed

section \<open>Validation of the payload\<close>

text \<open>
  What \<open>match_e164\<close> accepts: a plus sign, a run of digits that is not empty, and
  possibly one newline after it. A failed validation names a field, and a member of the
  object that no field reads changes neither whether the payload is accepted nor the
  accepted payload.
\<close>

lemma match_e164_iff:
  "match_e164 L v \<longleftrightarrow>
     (\<exists>ds. ds \<noteq> [] \<and> list_all (is_digit L) ds \<and> (v = 43 # ds \<or> v = 43 # ds @ [10]))"
proof
  assume m: "match_e164 L v"
  then obtain cs where v: "v = 43 # cs" and ne: "takeWhile (is_digit L) cs \<noteq> []"
    and rest: "dropWhile (is_digit L) cs = [] \<or> dropWhile (is_digit L) cs = [10]"
    by (auto simp: match_e164_def split: list.splits)
  have cs: "cs = takeWhile (is_digit L) cs @ dropWhile (is_digit L) cs"
    by simp
  have "list_all (is_digit L) (takeWhile (is_digit L) cs)"
    by (auto simp: list_all_iff dest: set_takeWhileD)
  with v ne rest cs show "\<exists>ds. ds \<noteq> [] \<and> list_all (is_digit L) ds \<and> (v = 43 # ds \<or> v = 43 # ds @ [10])"
    by (metis append_Nil2)
next
  assume "\<exists>ds. ds \<noteq> [] \<and> list_all (is_digit L) ds \<and> (v = 43 # ds \<or> v = 43 # ds @ [10])"
  then obtain ds where ne: "ds \<noteq> []" and all: "list_all (is_digit L) ds"
    and v: "v = 43 # ds \<or> v = 43 # ds @ [10]"
    by blast
  have tw: "takeWhile (is_digit L) (ds @ ys) = ds @ takeWhile (is_digit L) ys" for ys
    using all by (simp add: list_all_iff takeWhile_append2)
  have dw: "dropWhile (is_digit L) (ds @ ys) = dropWhile (is_digit L) ys" for ys
    using all by (simp add: list_all_iff dropWhile_append2)
  from v show "match_e164 L v"
  proof
    assume v: "v = 43 # ds"
    have T: "takeWhile (is_digit L) ds = ds" and D: "dropWhile (is_digit L) ds = []"
      using all by (simp_all add: list_all_iff)
    show ?thesis
      using all by (simp add: match_e164_def v T D ne list_all_iff)
  next
    assume "v = 43 # ds @ [10]"
    then show ?thesis
      using ne all by (simp add: match_e164_def tw dw list_all_iff)
  qed
qed

lemma failed_Inl: "failed name (Inl e) \<noteq> []"
  by (simp add: failed_def)

lemma validate_payload_names_field:
  assumes "validate_payload L j = Inl errs"
  shows "errs \<noteq> []"
proof (cases j)
  case (JObject obj)
  show ?thesis
  proof (cases "field_message_id obj")
    case (Inl e)
    with assms JObject show ?thesis
      by (auto simp: validate_payload_def failed_Inl split: prod.splits sum.splits)
  next
    case m: (Inr m)
    show ?thesis
    proof (cases "field_from L obj")
      case (Inl e)
      with assms JObject m show ?thesis
        by (auto simp: validate_payload_def failed_Inl split: prod.splits sum.splits)
    next
      case f: (Inr f)
      show ?thesis
      proof (cases "field_to L obj")
        case (Inl e)
        with assms JObject m f show ?thesis
          by (auto simp: validate_payload_def failed_Inl split: prod.splits sum.splits)
      next
        case t: (Inr t)
        show ?thesis
        proof (cases "field_ts L obj")
          case (Inl e)
          with assms JObject m f t show ?thesis
            by (auto simp: validate_payload_def failed_Inl split: prod.splits sum.splits)
        next
          case d: (Inr d)
          show ?thesis
          proof (cases "field_text obj")
            case (Inl e)
            with assms JObject m f t d show ?thesis
              by (auto simp: validate_payload_def failed_Inl split: prod.splits sum.splits)
          next
            case (Inr x)
            with assms JObject m f t d show ?thesis
              by (simp add: validate_payload_def)
          qed
        qed
      qed
    qed
  qed
qed (use assms in \<open>auto simp: validate_payload_def\<close>)

lemma validate_payload_accepts:
  "validate_payload L (JObject obj) = Inr p \<longleftrightarrow>
     (\<exists>m f t d x. field_message_id obj = Inr m \<and> field_from L obj = Inr f
        \<and> field_to L obj = Inr t \<and> field_ts L obj = Inr d \<and> field_text obj = Inr x
        \<and> p = \<lparr>WebhookPayload.message_id = m, from' = f, to = t, ts = d, text' = x\<rparr>)"
  by (cases "field_message_id obj"; cases "field_from L obj"; cases "field_to L obj";
      cases "field_ts L obj"; cases "field_text obj")
    (auto simp: validate_payload_def)

lemma validate_payload_extra_member:
  assumes "k \<notin> {ascii ''message_id'', ascii ''from'', ascii ''from_'', ascii ''to'', ascii ''ts'',
                ascii ''text''}"
  shows "validate_payload L (JObject ((k, v) # obj)) = Inr p
           \<longleftrightarrow> validate_payload L (JObject obj) = Inr p"
proof -
  from assms have ks: "ascii ''message_id'' \<noteq> k" "ascii ''from'' \<noteq> k" "ascii ''from_'' \<noteq> k"
    "ascii ''to'' \<noteq> k" "ascii ''ts'' \<noteq> k" "ascii ''text'' \<noteq> k"
    by auto
  have "field_message_id ((k, v) # obj) = Inr m \<longleftrightarrow> field_message_id obj = Inr m" for m
    by (simp add: field_message_id_def ks split: option.splits)
  moreover have "field_from L ((k, v) # obj) = Inr f \<longleftrightarrow> field_from L obj = Inr f" for f
    by (simp add: field_from_def e164_field_def ks split: option.splits)
  moreover have "field_to L ((k, v) # obj) = Inr t \<longleftrightarrow> field_to L obj = Inr t" for t
    by (simp add: field_to_def e164_field_def ks split: option.splits)
  moreover have "field_ts L ((k, v) # obj) = Inr d \<longleftrightarrow> field_ts L obj = Inr d" for d
    by (simp add: field_ts_def ks split: option.splits)
  moreover have "field_text ((k, v) # obj) = field_text obj"
    by (simp add: field_text_def ks)
  ultimately show ?thesis
    by (simp add: validate_payload_accepts)
qed

text \<open>
  C8. A payload whose \<open>from\<close> is \<open>+123\<close> followed by a newline is accepted, and the
  newline is kept in the validated sender: \<open>$\<close> matches before a final newline.
\<close>

theorem validate_payload_trailing_newline:
  "validate_payload
     \<lparr>hmac_sha256 = (\<lambda>key msg. []), json_loads = (\<lambda>b. Inl JSONDecodeError),
      json_media_type = (\<lambda>c. True),
      parse_datetime = (\<lambda>j. Some \<lparr>year = 2025, month = 1, day = 15, hour = 10, minute = 0,
                                     second = 0, microsecond = 0, utcoffset = Some 0\<rparr>),
      unicode_decimal = (\<lambda>c. False), renders = (\<lambda>v. True)\<rparr>
     (JObject [(ascii ''message_id'', JString (ascii ''m1'')),
               (ascii ''from'', JString (ascii ''+123'' @ [10])),
               (ascii ''to'', JString (ascii ''+14155550100'')),
               (ascii ''ts'', JString (ascii ''2025-01-15T10:00:00Z''))])
   = Inr \<lparr>WebhookPayload.message_id = ascii ''m1'', from' = ascii ''+123'' @ [10],
          to = ascii ''+14155550100'',
          ts = \<lparr>year = 2025, month = 1, day = 15, hour = 10, minute = 0, second = 0,
                 microsecond = 0, utcoffset = Some 0\<rparr>,
          text' = None\<rparr>"
  by (simp add: validate_payload_def field_message_id_def field_from_def field_to_def
      field_ts_def field_text_def e164_field_def str_field_def validate_message_id_def
      validate_e164_def match_e164_def is_digit_def strip_def isspace_def ascii_def utf8_def)

end
